theory Spec2Isabelle
  imports Complex_Main "HOL-Library.Word"
begin

unbundle bit_operations_syntax

section \<open>Values and memory\<close>

text \<open>
  A \<^verbatim>\<open>double\<close> is modelled by its 64-bit pattern (the source's own
  \<^verbatim>\<open>typedef uint_fast64_t doublerep\<close>), a \<^verbatim>\<open>float\<close> storage cell by its 32-bit
  pattern. Copying a \<^verbatim>\<open>float\<close> or a \<^verbatim>\<open>double\<close> copies the bits (SSE register moves).
\<close>

type_synonym doublerep = "64 word"
type_synonym floatrep = "32 word"

text \<open>
  Pointers are 64-bit byte addresses in a flat memory; \<^verbatim>\<open>nullptr\<close> is address 0.
  \<^verbatim>\<open>float\<close> and \<^verbatim>\<open>double\<close> arrays live in two separate typed memories, each keyed by
  the byte address of the element. Dereferencing is unchecked, as in the source:
  \<^verbatim>\<open>p[i]\<close> is the cell at address \<open>p + 4 * i\<close> (\<open>p + 8 * i\<close> for a \<^verbatim>\<open>double\<close>),
  computed modulo \<open>2^64\<close> as the machine does, whatever block it falls in.
  \<^verbatim>\<open>new[]\<close> hands out a block above everything handed out before and records its
  base; an uninitialised block keeps what the memory held. When the block does not fit
  below the top of the address space \<^verbatim>\<open>new[]\<close> throws; that is \<open>AllocationFailure\<close>.
\<close>

type_synonym float_ptr = "64 word"
type_synonym double_ptr = "64 word"

definition nullptr :: "64 word" where
  "nullptr = 0"

record heap =
  cells :: "64 word \<Rightarrow> floatrep"
  dcells :: "64 word \<Rightarrow> doublerep"
  live :: "64 word list"
  dlive :: "64 word list"
  brk :: nat
  dbrk :: nat

datatype error = InvalidFree | AllocationFailure | IndeterminatePointer

text \<open>\<^verbatim>\<open>new float[n]\<close>: a fresh block of \<open>n\<close> cells, contents indeterminate.\<close>

definition new_float :: "nat \<Rightarrow> heap \<Rightarrow> error + float_ptr \<times> heap" where
  "new_float n s =
     (let b = brk s + 8
      in if b + 4 * n < 2 ^ 64
         then Inr (of_nat b, s\<lparr>live := of_nat b # live s, brk := b + 4 * n\<rparr>)
         else Inl AllocationFailure)"

text \<open>\<^verbatim>\<open>new float[n] ()\<close>: a fresh block of \<open>n\<close> cells, value-initialised to zero.\<close>

definition new_float_zero :: "nat \<Rightarrow> heap \<Rightarrow> error + float_ptr \<times> heap" where
  "new_float_zero n s =
     (let b = brk s + 8
      in if b + 4 * n < 2 ^ 64
         then Inr (of_nat b,
                s\<lparr>cells := (\<lambda>a. if b \<le> unat a \<and> unat a < b + 4 * n then 0 else cells s a),
                  live := of_nat b # live s, brk := b + 4 * n\<rparr>)
         else Inl AllocationFailure)"

text \<open>\<^verbatim>\<open>new double[n]\<close>.\<close>

definition new_double :: "nat \<Rightarrow> heap \<Rightarrow> error + double_ptr \<times> heap" where
  "new_double n s =
     (let b = dbrk s + 8
      in if b + 8 * n < 2 ^ 64
         then Inr (of_nat b, s\<lparr>dlive := of_nat b # dlive s, dbrk := b + 8 * n\<rparr>)
         else Inl AllocationFailure)"

text \<open>
  \<^verbatim>\<open>delete[] p\<close>: releases the live block with base \<open>p\<close>. Deleting a pointer that
  is not the base of a live block is undefined in C++ (the allocator aborts); the model
  reports it as \<open>InvalidFree\<close>.
\<close>

definition delete_float :: "float_ptr \<Rightarrow> heap \<Rightarrow> error + heap" where
  "delete_float p s =
     (if p \<in> set (live s) then Inr (s\<lparr>live := remove1 p (live s)\<rparr>) else Inl InvalidFree)"

definition delete_double :: "double_ptr \<Rightarrow> heap \<Rightarrow> error + heap" where
  "delete_double p s =
     (if p \<in> set (dlive s) then Inr (s\<lparr>dlive := remove1 p (dlive s)\<rparr>) else Inl InvalidFree)"

text \<open>
  A store through a pointer member. A member that no initialiser and no assignment has
  given a value is indeterminate, written \<open>None\<close>; a store through it is undefined in
  C++ and the model reports it as \<open>IndeterminatePointer\<close>.
\<close>

definition store_float :: "float_ptr option \<Rightarrow> floatrep \<Rightarrow> heap \<Rightarrow> error + heap" where
  "store_float p v s =
     (case p of
        None \<Rightarrow> Inl IndeterminatePointer
      | Some a \<Rightarrow> Inr (s\<lparr>cells := (cells s)(a := v)\<rparr>))"

section \<open>Vector intrinsics\<close>

text \<open>
  The SSE intrinsics of \<^verbatim>\<open>immintrin.h\<close> used by the source. A \<^verbatim>\<open>__m128\<close> is four
  \<^verbatim>\<open>float\<close> lanes, a \<^verbatim>\<open>__m128d\<close> two \<^verbatim>\<open>double\<close> lanes, lane 0 first (little endian).
  The casts reinterpret the 128 bits without changing them.
\<close>

type_synonym m128 = "floatrep list"
type_synonym m128d = "doublerep list"

definition mm_set_ps :: "floatrep \<Rightarrow> floatrep \<Rightarrow> floatrep \<Rightarrow> floatrep \<Rightarrow> m128" where
  "mm_set_ps e3 e2 e1 e0 = [e0, e1, e2, e3]"

definition mm_set_pd :: "doublerep \<Rightarrow> doublerep \<Rightarrow> m128d" where
  "mm_set_pd e1 e0 = [e0, e1]"

definition mm_castps_pd :: "m128 \<Rightarrow> m128d" where
  "mm_castps_pd v = [word_cat (v ! 1) (v ! 0), word_cat (v ! 3) (v ! 2)]"

definition mm_castpd_ps :: "m128d \<Rightarrow> m128" where
  "mm_castpd_ps v =
     [ucast (v ! 0), ucast (drop_bit 32 (v ! 0)), ucast (v ! 1), ucast (drop_bit 32 (v ! 1))]"

section \<open>Element accessors\<close>

text \<open>\<^verbatim>\<open>class Head { float* head; }\<close> and \<^verbatim>\<open>class Pair { float* head; float* tail; }\<close>.\<close>

datatype Head = Head (head: float_ptr)

datatype Pair = Pair (head: float_ptr) (tail: float_ptr)

text \<open>\<^verbatim>\<open>Head::operator double() const\<close>.\<close>

definition Head_to_double :: "Head \<Rightarrow> heap \<Rightarrow> doublerep" where
  "Head_to_double h s =
     (let head_v = mm_set_ps 0 0 (cells s (Head.head h)) 0;
          head_vd = mm_castps_pd head_v
      in head_vd ! 0)"

text \<open>\<^verbatim>\<open>Pair::operator double() const\<close>.\<close>

definition Pair_to_double :: "Pair \<Rightarrow> heap \<Rightarrow> doublerep" where
  "Pair_to_double p s =
     (let seg_v = mm_set_ps 0 0 (cells s (Pair.head p)) (cells s (Pair.tail p));
          seg_vd = mm_castps_pd seg_v
      in seg_vd ! 0)"

text \<open>
  \<^verbatim>\<open>Pair::Pair(const Head& o) { *head = *o.head; *tail = 0; }\<close>. The constructor has
  no member initialiser, so when its body runs the members \<^verbatim>\<open>head\<close> and \<^verbatim>\<open>tail\<close>
  of the new object are indeterminate. The result is the memory after the two stores.
\<close>

definition Pair_from_Head :: "Head \<Rightarrow> heap \<Rightarrow> error + heap" where
  "Pair_from_Head o' s =
     (let head = None; tail = None
      in case store_float head (cells s (Head.head o')) s of
           Inl e \<Rightarrow> Inl e
         | Inr s1 \<Rightarrow> store_float tail 0 s1)"

text \<open>\<^verbatim>\<open>template<typename T> Head& Head::operator=(const T& other)\<close>, at \<^verbatim>\<open>T = double\<close>.\<close>

definition Head_assign :: "Head \<Rightarrow> doublerep \<Rightarrow> heap \<Rightarrow> heap" where
  "Head_assign h other s =
     (let d = other;
          d_v = mm_set_pd 0 d;
          seg_v = mm_castpd_ps d_v
      in s\<lparr>cells := (cells s)(Head.head h := seg_v ! 1)\<rparr>)"

text \<open>\<^verbatim>\<open>template<> Pair& Pair::operator=(const Head& other)\<close>.\<close>

definition Pair_assign_Head :: "Pair \<Rightarrow> Head \<Rightarrow> heap \<Rightarrow> heap" where
  "Pair_assign_Head p other s =
     s\<lparr>cells := (cells s)(Pair.head p := cells s (Head.head other))\<rparr>"


text \<open>
  \<^verbatim>\<open>Head::operator+=\<close>, \<^verbatim>\<open>-=\<close>, \<^verbatim>\<open>*=\<close>, \<^verbatim>\<open>/=\<close>, at \<^verbatim>\<open>T = double\<close>. The
  arithmetic on \<^verbatim>\<open>double\<close> (\<^verbatim>\<open>t += rhs\<close> and so on) is the hardware's; it is the
  parameter \<open>fadd\<close>, \<open>fsub\<close>, \<open>fmul\<close>, \<open>fdiv\<close> on bit patterns. Each returns the
  \<^verbatim>\<open>double\<close> result and the updated memory.
\<close>

definition Head_plus_assign ::
  "(doublerep \<Rightarrow> doublerep \<Rightarrow> doublerep) \<Rightarrow> Head \<Rightarrow> doublerep \<Rightarrow> heap \<Rightarrow> doublerep \<times> heap" where
  "Head_plus_assign fadd h rhs s =
     (let t = Head_to_double h s;
          t = fadd t rhs;
          s = Head_assign h t s
      in (t, s))"

definition Head_minus_assign ::
  "(doublerep \<Rightarrow> doublerep \<Rightarrow> doublerep) \<Rightarrow> Head \<Rightarrow> doublerep \<Rightarrow> heap \<Rightarrow> doublerep \<times> heap" where
  "Head_minus_assign fsub h rhs s =
     (let t = Head_to_double h s;
          t = fsub t rhs;
          s = Head_assign h t s
      in (t, s))"

definition Head_times_assign ::
  "(doublerep \<Rightarrow> doublerep \<Rightarrow> doublerep) \<Rightarrow> Head \<Rightarrow> doublerep \<Rightarrow> heap \<Rightarrow> doublerep \<times> heap" where
  "Head_times_assign fmul h rhs s =
     (let t = Head_to_double h s;
          t = fmul t rhs;
          s = Head_assign h t s
      in (t, s))"

definition Head_divide_assign ::
  "(doublerep \<Rightarrow> doublerep \<Rightarrow> doublerep) \<Rightarrow> Head \<Rightarrow> doublerep \<Rightarrow> heap \<Rightarrow> doublerep \<times> heap" where
  "Head_divide_assign fdiv h rhs s =
     (let t = Head_to_double h s;
          t = fdiv t rhs;
          s = Head_assign h t s
      in (t, s))"

section \<open>Segmented storage\<close>

text \<open>
  \<^verbatim>\<open>TwoSegArray<false>\<close> (\<^verbatim>\<open>HeadsArray\<close>) and \<^verbatim>\<open>TwoSegArray<true>\<close> (\<^verbatim>\<open>PairsArray\<close>)
  hold the same two members, \<^verbatim>\<open>float* heads; float* tails;\<close>. Indices are
  \<^verbatim>\<open>uint_fast64_t\<close>; \<^verbatim>\<open>&heads[id]\<close> is the address \<open>heads + 4 * id\<close> modulo
  \<open>2^64\<close>.
\<close>

record TwoSegArray =
  heads :: float_ptr
  tails :: float_ptr

text \<open>The default constructor.\<close>

definition TwoSegArray_empty :: TwoSegArray where
  "TwoSegArray_empty = \<lparr>heads = nullptr, tails = nullptr\<rparr>"

text \<open>\<^verbatim>\<open>TwoSegArray<true>\<close>: \<^verbatim>\<open>operator[]\<close>, \<^verbatim>\<open>set\<close>, \<^verbatim>\<open>read\<close>.\<close>

definition PairsArray_index :: "TwoSegArray \<Rightarrow> 64 word \<Rightarrow> Pair" where
  "PairsArray_index A id' = Pair (heads A + 4 * id') (tails A + 4 * id')"

definition PairsArray_set :: "TwoSegArray \<Rightarrow> 64 word \<Rightarrow> doublerep \<Rightarrow> heap \<Rightarrow> heap" where
  "PairsArray_set A id' t s =
     (let d = t;
          d_v = mm_set_pd 0 d;
          seg_v = mm_castpd_ps d_v;
          s1 = s\<lparr>cells := (cells s)(tails A + 4 * id' := seg_v ! 0)\<rparr>
      in s1\<lparr>cells := (cells s1)(heads A + 4 * id' := seg_v ! 1)\<rparr>)"

definition PairsArray_read :: "TwoSegArray \<Rightarrow> 64 word \<Rightarrow> heap \<Rightarrow> doublerep" where
  "PairsArray_read A id' s =
     Pair_to_double (Pair (heads A + 4 * id') (tails A + 4 * id')) s"

text \<open>
  \<^verbatim>\<open>TwoSegArray<false>\<close>: \<^verbatim>\<open>set\<close>, \<^verbatim>\<open>setPair\<close>, \<^verbatim>\<open>read\<close>, \<^verbatim>\<open>operator[]\<close>,
  \<^verbatim>\<open>createFullPrecision\<close>, \<^verbatim>\<open>alloc\<close>, \<^verbatim>\<open>isAlloc\<close>, \<^verbatim>\<open>del\<close>.
\<close>

definition HeadsArray_set :: "TwoSegArray \<Rightarrow> 64 word \<Rightarrow> doublerep \<Rightarrow> heap \<Rightarrow> heap" where
  "HeadsArray_set A id' t s =
     (let d = t;
          d_v = mm_set_pd 0 d;
          seg_v = mm_castpd_ps d_v
      in s\<lparr>cells := (cells s)(heads A + 4 * id' := seg_v ! 1)\<rparr>)"

definition HeadsArray_setPair :: "TwoSegArray \<Rightarrow> 64 word \<Rightarrow> doublerep \<Rightarrow> heap \<Rightarrow> heap" where
  "HeadsArray_setPair A id' t s =
     (let d = t;
          d_v = mm_set_pd 0 d;
          seg_v = mm_castpd_ps d_v;
          s1 = s\<lparr>cells := (cells s)(tails A + 4 * id' := seg_v ! 0)\<rparr>
      in s1\<lparr>cells := (cells s1)(heads A + 4 * id' := seg_v ! 1)\<rparr>)"

definition HeadsArray_read :: "TwoSegArray \<Rightarrow> 64 word \<Rightarrow> heap \<Rightarrow> doublerep" where
  "HeadsArray_read A id' s = Head_to_double (Head (heads A + 4 * id')) s"

definition HeadsArray_index :: "TwoSegArray \<Rightarrow> 64 word \<Rightarrow> Head" where
  "HeadsArray_index A id' = Head (heads A + 4 * id')"

definition createFullPrecision :: "TwoSegArray \<Rightarrow> TwoSegArray" where
  "createFullPrecision A = \<lparr>heads = heads A, tails = tails A\<rparr>"

definition HeadsArray_alloc ::
  "64 word \<Rightarrow> TwoSegArray \<Rightarrow> heap \<Rightarrow> error + TwoSegArray \<times> heap" where
  "HeadsArray_alloc length' A s =
     (case new_float (unat length') s of
        Inl e \<Rightarrow> Inl e
      | Inr (h, s) \<Rightarrow>
          (case new_float_zero (unat length') s of
             Inl e \<Rightarrow> Inl e
           | Inr (t, s) \<Rightarrow> Inr (A\<lparr>heads := h, tails := t\<rparr>, s)))"

definition isAlloc :: "TwoSegArray \<Rightarrow> bool" where
  "isAlloc A \<longleftrightarrow> heads A \<noteq> nullptr \<and> tails A \<noteq> nullptr"

definition TwoSegArray_del :: "TwoSegArray \<Rightarrow> heap \<Rightarrow> error + TwoSegArray \<times> heap" where
  "TwoSegArray_del A s =
     (case (if heads A \<noteq> nullptr then delete_float (heads A) s else Inr s) of
        Inl e \<Rightarrow> Inl e
      | Inr s1 \<Rightarrow>
          (case (if tails A \<noteq> nullptr then delete_float (tails A) s1 else Inr s1) of
             Inl e \<Rightarrow> Inl e
           | Inr s2 \<Rightarrow> Inr (A\<lparr>heads := nullptr, tails := nullptr\<rparr>, s2)))"

text \<open>
  The state of a \<^verbatim>\<open>TwoSegArray\<close> after \<^verbatim>\<open>alloc(n)\<close>: neither pointer is null, and
  the two blocks of \<open>n\<close> cells lie within the address space and do not overlap.
\<close>

definition allocated :: "TwoSegArray \<Rightarrow> nat \<Rightarrow> bool" where
  "allocated A n \<longleftrightarrow>
     isAlloc A \<and>
     unat (heads A) + 4 * n \<le> 2 ^ 64 \<and> unat (tails A) + 4 * n \<le> 2 ^ 64 \<and>
     (unat (heads A) + 4 * n \<le> unat (tails A) \<or> unat (tails A) + 4 * n \<le> unat (heads A))"

section \<open>Composite array\<close>

text \<open>
  \<^verbatim>\<open>class ManSegArray { HeadsArray heads; PairsArray pairs; double* full;
  uint_fast64_t length; }\<close>. The members \<^verbatim>\<open>heads\<close> and \<^verbatim>\<open>length\<close> carry a suffix
  here, since the names are taken.
\<close>

record ManSegArray =
  heads_m :: TwoSegArray
  pairs :: TwoSegArray
  full :: double_ptr
  length_m :: "64 word"

text \<open>\<^verbatim>\<open>ManSegArray()\<close> and \<^verbatim>\<open>ManSegArray(const uint_fast64_t& length)\<close>.\<close>

definition ManSegArray_empty :: ManSegArray where
  "ManSegArray_empty =
     \<lparr>heads_m = TwoSegArray_empty, pairs = TwoSegArray_empty, full = nullptr, length_m = 0\<rparr>"

definition ManSegArray_create :: "64 word \<Rightarrow> heap \<Rightarrow> error + ManSegArray \<times> heap" where
  "ManSegArray_create length' s =
     (case HeadsArray_alloc length' TwoSegArray_empty s of
        Inl e \<Rightarrow> Inl e
      | Inr (A, s) \<Rightarrow>
          Inr (\<lparr>heads_m = A, pairs = createFullPrecision A, full = nullptr, length_m = length'\<rparr>, s))"

text \<open>\<^verbatim>\<open>ManSegArray::alloc\<close>.\<close>

definition ManSegArray_alloc ::
  "64 word \<Rightarrow> ManSegArray \<Rightarrow> heap \<Rightarrow> error + ManSegArray \<times> heap" where
  "ManSegArray_alloc length' M s =
     (case HeadsArray_alloc length' (heads_m M) s of
        Inl e \<Rightarrow> Inl e
      | Inr (A, s) \<Rightarrow>
          Inr (M\<lparr>length_m := length', heads_m := A, pairs := createFullPrecision A\<rparr>, s))"

text \<open>
  The loop of \<^verbatim>\<open>copytoIEEEdouble\<close>:
  \<^verbatim>\<open>for(int i = 0; i < length; ++i) full[i] = heads[i];\<close>
  The counter is a 32-bit \<^verbatim>\<open>int\<close>, written here with two's complement wrap-around. The
  comparison with the \<^verbatim>\<open>uint_fast64_t\<close> length converts the counter to 64 bits unsigned
  by sign extension, and so does passing it to \<^verbatim>\<open>heads.operator[]\<close>; \<^verbatim>\<open>full[i]\<close>
  is pointer arithmetic with the signed counter, the address \<open>full + 8 * i\<close> modulo
  \<open>2^64\<close>. The right-hand side is a \<^verbatim>\<open>Head\<close> converted by
  \<^verbatim>\<open>Head::operator double\<close>.
\<close>

function copy_loop :: "ManSegArray \<Rightarrow> 32 word \<Rightarrow> heap \<Rightarrow> heap" where
  "copy_loop M i s =
     (if (scast i :: 64 word) < length_m M
      then copy_loop M (i + 1)
             (s\<lparr>dcells := (dcells s)
                  (full M + 8 * scast i :=
                     Head_to_double (HeadsArray_index (heads_m M) (scast i)) s)\<rparr>)
      else s)"
  by pat_completeness auto
termination
proof (relation "measure (\<lambda>(M, i, s). 4294967296 - unat i)")
  show "wf (measure (\<lambda>(M :: ManSegArray, i :: 32 word, s :: heap). 4294967296 - unat i))"
    by simp
next
  fix M :: ManSegArray and i :: "32 word" and s s' :: heap
  assume "(scast i :: 64 word) < length_m M"
  then have "i \<noteq> - 1" by auto
  then have "1 + i \<noteq> 0" by (metis add_eq_0_iff)
  then have "unat (1 + i) = Suc (unat i)" by (rule unatSuc)
  moreover have "unat i < 2 ^ 32" using unsigned_less [of i] by simp
  ultimately have "4294967296 - unat (i + 1) < 4294967296 - unat i"
    by (simp add: add.commute)
  then show "((M, i + 1, s'), (M, i, s)) \<in> measure (\<lambda>(M, i, s). 4294967296 - unat i)"
    by simp
qed

declare copy_loop.simps [simp del]

text \<open>\<^verbatim>\<open>ManSegArray::copytoIEEEdouble\<close>.\<close>

definition copytoIEEEdouble :: "ManSegArray \<Rightarrow> heap \<Rightarrow> error + ManSegArray \<times> heap" where
  "copytoIEEEdouble M s =
     (case new_double (unat (length_m M)) s of
        Inl e \<Rightarrow> Inl e
      | Inr (f, s) \<Rightarrow>
          (let M = M\<lparr>full := f\<rparr>
           in Inr (M, copy_loop M 0 s)))"

text \<open>
  What the iteration with counter \<open>j\<close> stores while the counter has not wrapped: the
  head cell of element \<open>j\<close>, read from the \<^verbatim>\<open>float\<close> memory \<open>c\<close> and followed by 32
  zero bits, goes to \<open>full[j]\<close>.
\<close>

definition mirror_cell ::
  "ManSegArray \<Rightarrow> (64 word \<Rightarrow> floatrep) \<Rightarrow> nat \<Rightarrow> (64 word \<Rightarrow> doublerep) \<Rightarrow> 64 word \<Rightarrow> doublerep"
  where
  "mirror_cell M c j d =
     d(full M + 8 * of_nat j := word_cat (c (heads (heads_m M) + 4 * of_nat j)) (0 :: 32 word))"

text \<open>\<^verbatim>\<open>ManSegArray::delSegments\<close> and \<^verbatim>\<open>ManSegArray::del\<close>.\<close>

definition delSegments :: "ManSegArray \<Rightarrow> heap \<Rightarrow> error + ManSegArray \<times> heap" where
  "delSegments M s =
     (case TwoSegArray_del (heads_m M) s of
        Inl e \<Rightarrow> Inl e
      | Inr (A, s) \<Rightarrow>
          Inr (if full M = nullptr then M\<lparr>heads_m := A, length_m := 0\<rparr> else M\<lparr>heads_m := A\<rparr>, s))"

definition ManSegArray_del :: "ManSegArray \<Rightarrow> heap \<Rightarrow> error + ManSegArray \<times> heap" where
  "ManSegArray_del M s =
     (case (if full M \<noteq> nullptr then delete_double (full M) s else Inr s) of
        Inl e \<Rightarrow> Inl e
      | Inr s \<Rightarrow>
          (let M = M\<lparr>full := nullptr\<rparr>
           in Inr (if \<not> isAlloc (heads_m M) then M\<lparr>length_m := 0\<rparr> else M, s)))"

section \<open>The value of a bit pattern\<close>

text \<open>
  What the 64 bits of a \<^verbatim>\<open>double\<close> stand for (IEEE 754 binary64): bit 63 is the sign,
  bits 62 to 52 the biased exponent, bits 51 to 0 the fraction. An exponent field of 0
  is a zero or a subnormal number, one of 2047 an infinity or a NaN.
\<close>

definition sign_d :: "doublerep \<Rightarrow> bool" where
  "sign_d d \<longleftrightarrow> bit d 63"

definition exponent_d :: "doublerep \<Rightarrow> nat" where
  "exponent_d d = unat d div 2 ^ 52 mod 2 ^ 11"

definition fraction_d :: "doublerep \<Rightarrow> nat" where
  "fraction_d d = unat d mod 2 ^ 52"

definition is_finite :: "doublerep \<Rightarrow> bool" where
  "is_finite d \<longleftrightarrow> exponent_d d < 2047"

definition is_normal :: "doublerep \<Rightarrow> bool" where
  "is_normal d \<longleftrightarrow> 0 < exponent_d d \<and> exponent_d d < 2047"

definition valof :: "doublerep \<Rightarrow> real" where
  "valof d =
     (if sign_d d then - 1 else 1) *
     (if exponent_d d = 0 then real (fraction_d d) / 2 ^ 1074
      else real (2 ^ 52 + fraction_d d) * 2 ^ exponent_d d / 2 ^ 1075)"

text \<open>
  \<^verbatim>\<open>constexpr double MaxSingleSegmentPrecision = 1e-6;\<close> is the \<^verbatim>\<open>double\<close> nearest to
  \<open>1/10^6\<close>, a little below it.
\<close>

definition MaxSingleSegmentPrecision :: doublerep where
  "MaxSingleSegmentPrecision = 0x3EB0C6F7A0B5ED8D"


section \<open>Example states\<close>

text \<open>An empty heap whose memory holds zeros.\<close>

definition heap0 :: heap where
  "heap0 = \<lparr>cells = (\<lambda>a. 0), dcells = (\<lambda>a. 0), live = [], dlive = [], brk = 0, dbrk = 0\<rparr>"

text \<open>
  The array that \<^verbatim>\<open>alloc(2)\<close> returns on the empty heap (heads at address 8, tails at
  address 24), and the heap after both cells of each element were written: element 0
  holds 1.0, element 1 holds 3.14159265358979.
\<close>

definition array2 :: "TwoSegArray \<times> heap" where
  "array2 = projr (HeadsArray_alloc 2 TwoSegArray_empty heap0)"

definition heap1 :: heap where
  "heap1 = HeadsArray_setPair (fst array2) 1 0x400921FB54442D11
             (HeadsArray_setPair (fst array2) 0 0x3FF0000000000000 (snd array2))"

text \<open>
  The product of the hardware at the one pair of operands the example of a compound
  assignment uses: 3.1415920257568359375 (the head of element 1 above, read alone)
  times 1.01.
\<close>

definition fmul_example :: "doublerep \<Rightarrow> doublerep \<Rightarrow> doublerep" where
  "fmul_example t r =
     (if t = 0x400921FB00000000 \<and> r = 0x3FF028F5C28F5C29 then 0x40096251FD70A3D7 else 0)"

text \<open>
  A composite array of length 2 created on the empty heap, the result of releasing its
  segments once, and the result of releasing them a second time.
\<close>

definition created2 :: "ManSegArray \<times> heap" where
  "created2 = projr (ManSegArray_create 2 heap0)"

definition released_once :: "error + ManSegArray \<times> heap" where
  "released_once = delSegments (fst created2) (snd created2)"

definition released_twice :: "error + ManSegArray \<times> heap" where
  "released_twice =
     (case released_once of Inl e \<Rightarrow> Inl e | Inr (M, s) \<Rightarrow> delSegments M s)"

text \<open>
  A composite array of length \<open>2^31 + 1\<close> created on the empty heap, the heap after
  \<^verbatim>\<open>heads.set(2147483648, 1.0)\<close>, and the result of \<^verbatim>\<open>copytoIEEEdouble\<close> after that.
\<close>

definition big :: "ManSegArray \<times> heap" where
  "big = projr (ManSegArray_create 0x80000001 heap0)"

definition big_written :: heap where
  "big_written = HeadsArray_set (heads_m (fst big)) 0x80000000 0x3FF0000000000000 (snd big)"

definition big_mirror :: "ManSegArray \<times> heap" where
  "big_mirror = projr (copytoIEEEdouble (fst big) big_written)"

section \<open>Bit-level facts\<close>

lemma word_cat_halves:
  "word_cat (ucast (drop_bit 32 d) :: 32 word) (ucast d :: 32 word) = (d :: 64 word)"
  by (rule bit_word_eqI) (auto simp add: bit_simps)

lemma upper_word_cat:
  "ucast (drop_bit 32 (word_cat (a :: 32 word) (b :: 32 word) :: 64 word)) = a"
  by (rule bit_word_eqI) (auto simp add: bit_simps)

lemma lower_word_cat:
  "ucast (word_cat (a :: 32 word) (b :: 32 word) :: 64 word) = b"
  by (rule bit_word_eqI) (auto simp add: bit_simps)

lemma word_cat_tail_inject:
  "(word_cat (a :: 32 word) (b :: 32 word) :: 64 word) = word_cat (a' :: 32 word) (b' :: 32 word)
     \<Longrightarrow> b = b'"
  by (drule arg_cong [where f = "ucast :: 64 word \<Rightarrow> 32 word"]) (simp add: lower_word_cat)

lemmas codec_defs = mm_set_ps_def mm_set_pd_def mm_castps_pd_def mm_castpd_ps_def

text \<open>The accessors with the intrinsics unfolded.\<close>

lemma Head_to_double_eq: "Head_to_double h s = word_cat (cells s (Head.head h)) (0 :: 32 word)"
  by (simp add: Head_to_double_def codec_defs)

lemma Pair_to_double_eq:
  "Pair_to_double p s = word_cat (cells s (Pair.head p)) (cells s (Pair.tail p))"
  by (simp add: Pair_to_double_def codec_defs)

lemma Head_assign_eq:
  "Head_assign h d s = s\<lparr>cells := (cells s)(Head.head h := ucast (drop_bit 32 d))\<rparr>"
  by (simp add: Head_assign_def codec_defs)

lemma HeadsArray_set_eq:
  "HeadsArray_set A i d s = s\<lparr>cells := (cells s)(heads A + 4 * i := ucast (drop_bit 32 d))\<rparr>"
  by (simp add: HeadsArray_set_def codec_defs)

section \<open>Addresses of an allocated array\<close>

text \<open>Within a block that fits in the address space, the address arithmetic does not wrap.\<close>

lemma unat_scaled:
  fixes p i :: "64 word"
  assumes "unat p + c * unat i < 2 ^ 64" "0 < c" "c < 2 ^ 64"
  shows "unat (p + of_nat c * i) = unat p + c * unat i"
proof -
  have c: "unat (of_nat c :: 64 word) = c"
    using assms(3) by (simp add: unat_of_nat)
  have "c * unat i < 2 ^ 64" using assms(1) by simp
  then have m: "unat (of_nat c * i :: 64 word) = c * unat i"
    using unat_mult_lem [of "of_nat c :: 64 word" i] by (simp add: c)
  have "unat p + unat (of_nat c * i :: 64 word) < 2 ^ 64"
    using assms(1) by (simp add: m)
  then show ?thesis
    using unat_add_lem [of p "of_nat c * i"] by (simp add: m)
qed

lemma unat_float_cell:
  fixes p i :: "64 word"
  assumes "unat p + 4 * n \<le> 2 ^ 64" "unat i < n"
  shows "unat (p + 4 * i) = unat p + 4 * unat i"
  using unat_scaled [of p 4 i] assms by simp

lemma allocated_cells_distinct:
  assumes "allocated A n" "unat i < n" "unat j < n"
  shows "heads A + 4 * i \<noteq> tails A + 4 * j"
    and "j \<noteq> i \<Longrightarrow> heads A + 4 * j \<noteq> heads A + 4 * i"
proof -
  have h: "unat (heads A + 4 * i) = unat (heads A) + 4 * unat i"
    "unat (heads A + 4 * j) = unat (heads A) + 4 * unat j"
    using assms by (simp_all add: allocated_def unat_float_cell [where n = n])
  have t: "unat (tails A + 4 * j) = unat (tails A) + 4 * unat j"
    using assms by (simp add: allocated_def unat_float_cell [where n = n])
  have "unat (heads A + 4 * i) \<noteq> unat (tails A + 4 * j)"
    unfolding h t using assms by (auto simp add: allocated_def)
  then show "heads A + 4 * i \<noteq> tails A + 4 * j" by auto
  assume "j \<noteq> i"
  then have "unat j \<noteq> unat i" by (simp add: word_unat_eq_iff)
  then have "unat (heads A + 4 * j) \<noteq> unat (heads A + 4 * i)"
    unfolding h by simp
  then show "heads A + 4 * j \<noteq> heads A + 4 * i" by auto
qed

text \<open>\<^verbatim>\<open>alloc\<close>, when it returns, gives an allocated array, whatever the heap and the length.\<close>

lemma new_float_Inr:
  assumes "new_float n s = Inr (p, s')"
  shows "unat p = brk s + 8" "brk s + 8 + 4 * n < 2 ^ 64" "brk s' = brk s + 8 + 4 * n"
  using assms
  by (auto simp add: new_float_def Let_def unat_of_nat simp del: of_nat_add split: if_splits)

lemma new_float_zero_Inr:
  assumes "new_float_zero n s = Inr (p, s')"
  shows "unat p = brk s + 8" "brk s + 8 + 4 * n < 2 ^ 64" "brk s' = brk s + 8 + 4 * n"
  using assms
  by (auto simp add: new_float_zero_def Let_def unat_of_nat simp del: of_nat_add split: if_splits)

lemma HeadsArray_alloc_allocated:
  assumes "HeadsArray_alloc n A s = Inr (A', s')"
  shows "allocated A' (unat n)"
proof -
  from assms obtain h s1 t where
    h: "new_float (unat n) s = Inr (h, s1)" and
    t: "new_float_zero (unat n) s1 = Inr (t, s')" and
    A': "A' = A\<lparr>heads := h, tails := t\<rparr>"
    by (auto simp add: HeadsArray_alloc_def split: sum.splits)
  note hb = new_float_Inr [OF h] and tb = new_float_zero_Inr [OF t]
  have "h \<noteq> 0" "t \<noteq> 0"
    using hb(1) tb(1) by (auto simp add: word_unat_eq_iff)
  then show ?thesis
    using hb tb by (simp add: allocated_def isAlloc_def nullptr_def A')
qed


lemma array2_eq: "fst array2 = \<lparr>heads = 8, tails = 24\<rparr>"
  by (simp add: array2_def HeadsArray_alloc_def new_float_def new_float_zero_def heap0_def
      TwoSegArray_empty_def nullptr_def Let_def)

lemma heap1_cells:
  "cells heap1 8 = 0x3FF00000" "cells heap1 24 = 0"
  "cells heap1 12 = 0x400921FB" "cells heap1 28 = 0x54442D11"
  by (simp_all add: heap1_def array2_eq HeadsArray_setPair_def codec_defs)

section \<open>Full-precision round trip\<close>

text \<open>
  Claim C1. Writing a \<^verbatim>\<open>double\<close> \<open>d\<close> with \<^verbatim>\<open>TwoSegArray<true>::set\<close> splits its
  bits into the tail cell (low 32 bits) and the head cell (high 32 bits); reading the
  element back, through \<^verbatim>\<open>read\<close> or through the \<^verbatim>\<open>Pair\<close> that \<^verbatim>\<open>operator[]\<close>
  returns, recombines them into a \<^verbatim>\<open>double\<close> with exactly the bits of \<open>d\<close>. This holds
  for every bit pattern, so for every finite \<open>d\<close>, both zeros and both infinities. The
  heads and the tails array are two arrays.
\<close>

theorem full_roundtrip:
  "heads A \<noteq> tails A \<Longrightarrow>
     PairsArray_read A i (PairsArray_set A i d s) = d \<and>
     Pair_to_double (PairsArray_index A i) (PairsArray_set A i d s) = d"
  by (simp add: PairsArray_read_def PairsArray_set_def PairsArray_index_def Pair_to_double_def
      codec_defs Let_def word_cat_halves)

theorem full_roundtrip_witness:
  "heads \<lparr>heads = 8, tails = 24\<rparr> \<noteq> tails \<lparr>heads = 8, tails = 24\<rparr> \<and>
   PairsArray_read \<lparr>heads = 8, tails = 24\<rparr> 1
     (PairsArray_set \<lparr>heads = 8, tails = 24\<rparr> 1 0x400921FB54442D11 heap0) = 0x400921FB54442D11 \<and>
   Pair_to_double (PairsArray_index \<lparr>heads = 8, tails = 24\<rparr> 1)
     (PairsArray_set \<lparr>heads = 8, tails = 24\<rparr> 1 0x400921FB54442D11 heap0) = 0x400921FB54442D11"
  using full_roundtrip [of "\<lparr>heads = 8, tails = 24\<rparr>" 1 "0x400921FB54442D11" heap0]
  by simp

section \<open>Precision of the head alone\<close>

text \<open>
  Writing a \<^verbatim>\<open>double\<close> through the head and reading it back clears its low 32 bits:
  sign and exponent stay, the fraction loses its low 32 bits.
\<close>

lemma head_only_bits:
  "Head_to_double h (Head_assign h d s) = push_bit 32 (drop_bit 32 d)"
  unfolding Head_to_double_eq Head_assign_eq
  by (rule bit_word_eqI) (auto simp add: bit_simps)

lemma unat_head_only: "unat (push_bit 32 (drop_bit 32 d) :: 64 word) = unat d div 2 ^ 32 * 2 ^ 32"
proof -
  have "unat d div 2 ^ 32 * 2 ^ 32 \<le> unat d" by simp
  also have "unat d < 2 ^ 64" using unsigned_less [of d] by simp
  finally have b: "unat d div 2 ^ 32 * 2 ^ 32 < 2 ^ 64" .
  have "unat (push_bit 32 (drop_bit 32 d) :: 64 word)
      = take_bit LENGTH(64) (push_bit 32 (drop_bit 32 (unat d)))"
    by (simp only: unsigned_push_bit_eq unat_drop_bit_eq)
  also have "\<dots> = take_bit 64 (unat d div 2 ^ 32 * 2 ^ 32)"
    by (simp add: push_bit_eq_mult drop_bit_eq_div)
  also have "\<dots> = unat d div 2 ^ 32 * 2 ^ 32"
    using b by (simp only: take_bit_nat_eq_self)
  finally show ?thesis .
qed

lemma div_trunc32: "(n :: nat) div 2 ^ 32 * 2 ^ 32 div 2 ^ 52 = n div 2 ^ 52"
proof -
  have "(2 :: nat) ^ 52 = 2 ^ 32 * 2 ^ 20" by simp
  then show ?thesis by (simp only: div_mult2_eq) simp
qed

lemma mod_trunc32: "(n :: nat) mod 2 ^ 52 = n div 2 ^ 32 * 2 ^ 32 mod 2 ^ 52 + n mod 2 ^ 32"
proof -
  have e: "(2 :: nat) ^ 52 = 2 ^ 32 * 2 ^ 20" by simp
  have "n mod 2 ^ 52 = 2 ^ 32 * (n div 2 ^ 32 mod 2 ^ 20) + n mod 2 ^ 32"
    by (simp only: e mod_mult2_eq)
  moreover have "n div 2 ^ 32 * 2 ^ 32 mod 2 ^ 52 = 2 ^ 32 * (n div 2 ^ 32 mod 2 ^ 20)"
    by (simp only: e mod_mult2_eq) simp
  ultimately show ?thesis by simp
qed


lemma sign_head_only: "sign_d (push_bit 32 (drop_bit 32 d)) = sign_d d"
  by (simp add: sign_d_def bit_simps)

lemma exponent_head_only: "exponent_d (push_bit 32 (drop_bit 32 d)) = exponent_d d"
  by (simp only: exponent_d_def unat_head_only div_trunc32)

lemma fraction_head_only:
  "fraction_d d = fraction_d (push_bit 32 (drop_bit 32 d)) + unat d mod 2 ^ 32"
  by (simp only: fraction_d_def unat_head_only) (rule mod_trunc32)

lemma rel_error_normal:
  assumes "is_normal d"
  shows "\<bar>valof (push_bit 32 (drop_bit 32 d)) - valof d\<bar> / \<bar>valof d\<bar>
    = real (unat d mod 2 ^ 32) / real (2 ^ 52 + fraction_d d)"
proof -
  define c :: real where "c = 2 ^ exponent_d d / 2 ^ 1075"
  define \<sigma> :: real where "\<sigma> = (if sign_d d then - 1 else 1)"
  define r where "r = unat d mod 2 ^ 32"
  define m' where "m' = fraction_d (push_bit 32 (drop_bit 32 d))"
  have c: "0 < c" by (simp add: c_def)
  have \<sigma>: "\<bar>\<sigma>\<bar> = 1" by (simp add: \<sigma>_def)
  have e: "exponent_d d \<noteq> 0" using assms by (simp add: is_normal_def)
  have m: "fraction_d d = m' + r" unfolding m'_def r_def by (rule fraction_head_only)
  have v: "valof d = \<sigma> * (real (2 ^ 52 + m' + r) * c)"
    using e by (simp add: valof_def \<sigma>_def c_def m)
  have v': "valof (push_bit 32 (drop_bit 32 d)) = \<sigma> * (real (2 ^ 52 + m') * c)"
    using e by (simp add: valof_def sign_head_only exponent_head_only \<sigma>_def c_def m'_def)
  have "valof (push_bit 32 (drop_bit 32 d)) - valof d = \<sigma> * (- (real r * c))"
    unfolding v v' by (simp add: algebra_simps)
  then have "\<bar>valof (push_bit 32 (drop_bit 32 d)) - valof d\<bar> = real r * c"
    using \<sigma> c by (simp add: abs_mult)
  moreover have "\<bar>valof d\<bar> = real (2 ^ 52 + m' + r) * c"
    unfolding v using \<sigma> c by (simp add: abs_mult)
  ultimately have "\<bar>valof (push_bit 32 (drop_bit 32 d)) - valof d\<bar> / \<bar>valof d\<bar>
      = (real r * c) / (real (2 ^ 52 + m' + r) * c)"
    by simp
  also have "\<dots> = real r / real (2 ^ 52 + m' + r)"
    using c by simp
  finally show ?thesis by (simp add: m r_def add.assoc)
qed

lemma low_bits_over_significand:
  "real (n mod 2 ^ 32) / real (2 ^ 52 + m) < 1 / 2 ^ 20"
proof -
  have "n mod 2 ^ 32 < (2 :: nat) ^ 32" by simp
  then have "real (n mod 2 ^ 32) < 2 ^ 32"
    by (metis of_nat_less_iff of_nat_numeral of_nat_power)
  then have "real (n mod 2 ^ 32) * 2 ^ 20 < 2 ^ 32 * 2 ^ 20" by simp
  also have "\<dots> \<le> real (2 ^ 52 + m)" by simp
  finally show ?thesis by (simp add: field_simps)
qed

lemma MaxSingleSegmentPrecision_bounds:
  "1 / 2 ^ 20 < valof MaxSingleSegmentPrecision" "valof MaxSingleSegmentPrecision < 1 / 10 ^ 6"
  by (simp_all add: valof_def sign_d_def exponent_d_def fraction_d_def MaxSingleSegmentPrecision_def)

lemma valof_normal_nonzero: "is_normal d \<Longrightarrow> valof d \<noteq> 0"
  by (simp add: valof_def is_normal_def)

lemma reduced_read_set_bits:
  "HeadsArray_read A i (HeadsArray_set A i d s) = push_bit 32 (drop_bit 32 d)"
  unfolding HeadsArray_read_def HeadsArray_set_eq Head_to_double_eq
  by (rule bit_word_eqI) (auto simp add: bit_simps)

text \<open>
  Claim C2, as stated: for every finite nonzero \<open>d\<close> the relative error of the head-only
  round trip is at most \<^verbatim>\<open>MaxSingleSegmentPrecision\<close>. It fails for the smallest
  subnormal number, bit pattern 1: its head is zero, it reads back as 0.0, and the
  relative error is 1.
\<close>

theorem head_only_relative_error_counterexample:
  "is_finite 1 \<and> valof 1 \<noteq> 0 \<and>
   Head_to_double (Head 2) (Head_assign (Head 2) 1 heap0) = 0 \<and>
   \<bar>valof (Head_to_double (Head 2) (Head_assign (Head 2) 1 heap0)) - valof 1\<bar> / \<bar>valof 1\<bar> = 1 \<and>
   \<not> \<bar>valof (Head_to_double (Head 2) (Head_assign (Head 2) 1 heap0)) - valof 1\<bar> / \<bar>valof 1\<bar>
       \<le> valof MaxSingleSegmentPrecision"
proof -
  have h: "Head_to_double (Head 2) (Head_assign (Head 2) 1 heap0) = 0"
    by (simp add: head_only_bits)
  have v0: "valof 0 = 0"
    by (simp add: valof_def exponent_d_def fraction_d_def)
  have v1: "valof 1 \<noteq> 0"
    by (simp add: valof_def sign_d_def exponent_d_def fraction_d_def)
  have f: "is_finite 1" by (simp add: is_finite_def exponent_d_def)
  have r: "\<bar>valof 0 - valof 1\<bar> / \<bar>valof 1\<bar> = 1"
    using v1 by (simp add: v0)
  have "valof MaxSingleSegmentPrecision < 1"
    using MaxSingleSegmentPrecision_bounds(2) by simp
  then show ?thesis
    unfolding h r using f v1 by simp
qed

text \<open>
  Claim C2, amended. For every normal \<open>d\<close> (exponent field from 1 to 2046: finite, not
  zero, not subnormal), assigning \<open>d\<close> to a \<^verbatim>\<open>Head\<close> and converting the \<^verbatim>\<open>Head\<close>
  back, or \<^verbatim>\<open>set\<close> followed by \<^verbatim>\<open>read\<close> on the reduced view, gives a value whose
  relative error is at most \<^verbatim>\<open>MaxSingleSegmentPrecision\<close> (it is below \<open>2\<^sup>-\<^sup>2\<^sup>0\<close>).
\<close>

theorem head_only_relative_error:
  "is_normal d \<Longrightarrow>
     valof d \<noteq> 0 \<and>
     \<bar>valof (Head_to_double h (Head_assign h d s)) - valof d\<bar> / \<bar>valof d\<bar>
       \<le> valof MaxSingleSegmentPrecision \<and>
     \<bar>valof (HeadsArray_read A i (HeadsArray_set A i d s)) - valof d\<bar> / \<bar>valof d\<bar>
       \<le> valof MaxSingleSegmentPrecision \<and>
     \<bar>valof (Head_to_double h (Head_assign h d s)) - valof d\<bar> / \<bar>valof d\<bar> < 1 / 2 ^ 20 \<and>
     \<bar>valof (HeadsArray_read A i (HeadsArray_set A i d s)) - valof d\<bar> / \<bar>valof d\<bar> < 1 / 2 ^ 20"
proof -
  assume n: "is_normal d"
  have b: "\<bar>valof (push_bit 32 (drop_bit 32 d)) - valof d\<bar> / \<bar>valof d\<bar> < 1 / 2 ^ 20"
    unfolding rel_error_normal [OF n] by (rule low_bits_over_significand)
  also note MaxSingleSegmentPrecision_bounds(1)
  finally have "\<bar>valof (push_bit 32 (drop_bit 32 d)) - valof d\<bar> / \<bar>valof d\<bar>
      \<le> valof MaxSingleSegmentPrecision"
    by simp
  then show ?thesis
    using valof_normal_nonzero [OF n] b
    by (simp only: head_only_bits reduced_read_set_bits simp_thms)
qed

theorem head_only_relative_error_witness:
  "is_normal 0x400921FB54442D11 \<and> valof 0x400921FB54442D11 \<noteq> 0 \<and>
   Head_to_double (Head 2) (Head_assign (Head 2) 0x400921FB54442D11 heap0) = 0x400921FB00000000 \<and>
   \<bar>valof 0x400921FB00000000 - valof 0x400921FB54442D11\<bar> / \<bar>valof 0x400921FB54442D11\<bar>
       \<le> valof MaxSingleSegmentPrecision"
proof -
  have n: "is_normal 0x400921FB54442D11"
    by (simp add: is_normal_def exponent_d_def)
  have h: "Head_to_double (Head 2) (Head_assign (Head 2) 0x400921FB54442D11 heap0) = 0x400921FB00000000"
    by (simp add: head_only_bits)
  from head_only_relative_error [OF n, of "Head 2" heap0] n h show ?thesis
    by simp
qed

section \<open>Aliased views\<close>

text \<open>
  Claim C3. The full view returned by \<^verbatim>\<open>createFullPrecision\<close> holds the same two
  pointers as the reduced view it comes from. So after \<^verbatim>\<open>set(i, v)\<close> on the reduced
  view, \<^verbatim>\<open>read(i)\<close> on the full view gives a \<^verbatim>\<open>double\<close> whose upper 32 bits are those
  of \<open>v\<close>; its head-only part (what a \<^verbatim>\<open>Head\<close> gives back after being assigned that
  \<^verbatim>\<open>double\<close>) is the head-only part of \<open>v\<close>, which is also what the reduced view reads
  at \<open>i\<close>.
\<close>

theorem escalated_view_sees_head_write:
  "heads (createFullPrecision A) = heads A \<and> tails (createFullPrecision A) = tails A \<and>
   (ucast (drop_bit 32 (PairsArray_read (createFullPrecision A) i (HeadsArray_set A i v s))) :: 32 word)
     = ucast (drop_bit 32 v) \<and>
   Head_to_double h
     (Head_assign h (PairsArray_read (createFullPrecision A) i (HeadsArray_set A i v s)) s')
     = Head_to_double h (Head_assign h v s') \<and>
   HeadsArray_read A i (HeadsArray_set A i v s) = Head_to_double h (Head_assign h v s')"
  by (simp add: createFullPrecision_def PairsArray_read_def HeadsArray_read_def
      Pair_to_double_eq Head_to_double_eq Head_assign_eq HeadsArray_set_eq upper_word_cat)

section \<open>What a reduced-precision write touches\<close>

text \<open>
  Claim C4. On an allocated array of \<open>n\<close> elements and for an index \<open>i\<close> below \<open>n\<close>,
  \<^verbatim>\<open>TwoSegArray<false>::set(i, v)\<close> and the assignment of \<open>v\<close> to the \<^verbatim>\<open>Head\<close>
  returned by \<^verbatim>\<open>operator[](i)\<close> change the head cell of element \<open>i\<close> and nothing
  else: every tail cell, the head cell of every other element, every other \<^verbatim>\<open>float\<close>
  cell and the \<^verbatim>\<open>double\<close> memory keep their contents.
\<close>

theorem reduced_write_frame:
  "allocated A n \<Longrightarrow> unat i < n \<Longrightarrow> unat j < n \<Longrightarrow>
     cells (HeadsArray_set A i v s) (tails A + 4 * j) = cells s (tails A + 4 * j) \<and>
     cells (Head_assign (HeadsArray_index A i) v s) (tails A + 4 * j) = cells s (tails A + 4 * j) \<and>
     (j \<noteq> i \<longrightarrow>
        cells (HeadsArray_set A i v s) (heads A + 4 * j) = cells s (heads A + 4 * j) \<and>
        cells (Head_assign (HeadsArray_index A i) v s) (heads A + 4 * j) = cells s (heads A + 4 * j)) \<and>
     (\<forall>a. a \<noteq> heads A + 4 * i \<longrightarrow>
        cells (HeadsArray_set A i v s) a = cells s a \<and>
        cells (Head_assign (HeadsArray_index A i) v s) a = cells s a) \<and>
     dcells (HeadsArray_set A i v s) = dcells s \<and>
     dcells (Head_assign (HeadsArray_index A i) v s) = dcells s"
  using allocated_cells_distinct [of A n i j]
  by (auto simp add: HeadsArray_set_eq Head_assign_eq HeadsArray_index_def)

theorem reduced_write_frame_witness:
  "allocated \<lparr>heads = 8, tails = 24\<rparr> 2 \<and> unat (0 :: 64 word) < 2 \<and> unat (1 :: 64 word) < 2 \<and>
   cells (HeadsArray_set \<lparr>heads = 8, tails = 24\<rparr> 0 0x4004000000000000 heap1) 24 = 0 \<and>
   cells (HeadsArray_set \<lparr>heads = 8, tails = 24\<rparr> 0 0x4004000000000000 heap1) 28 = 0x54442D11 \<and>
   cells (HeadsArray_set \<lparr>heads = 8, tails = 24\<rparr> 0 0x4004000000000000 heap1) 12 = 0x400921FB \<and>
   cells (Head_assign (HeadsArray_index \<lparr>heads = 8, tails = 24\<rparr> 0) 0x4004000000000000 heap1) 28
     = 0x54442D11 \<and>
   cells (Head_assign (HeadsArray_index \<lparr>heads = 8, tails = 24\<rparr> 0) 0x4004000000000000 heap1) 12
     = 0x400921FB"
  using reduced_write_frame [of "\<lparr>heads = 8, tails = 24\<rparr>" 2 0 1 "0x4004000000000000" heap1]
    reduced_write_frame [of "\<lparr>heads = 8, tails = 24\<rparr>" 2 0 0 "0x4004000000000000" heap1]
  by (simp add: allocated_def isAlloc_def nullptr_def heap1_cells)

section \<open>Compound assignment on a head\<close>

text \<open>
  Claim C5. Each of \<^verbatim>\<open>Head::operator+=\<close>, \<^verbatim>\<open>-=\<close>, \<^verbatim>\<open>*=\<close>, \<^verbatim>\<open>/=\<close> with a
  \<^verbatim>\<open>double\<close> right-hand side \<open>r\<close> reads the head cell as a \<^verbatim>\<open>double\<close> (the 32 bits
  of the cell followed by 32 zero bits, which is what \<^verbatim>\<open>Head::operator double\<close>
  returns), applies the \<^verbatim>\<open>double\<close> operation \<open>f\<close> to it and \<open>r\<close>, stores the upper
  32 bits of the result in the head cell and changes nothing else in memory, and
  returns the result itself, not the stored truncation.
\<close>

theorem Head_compound_assign:
  "opr \<in> {Head_plus_assign, Head_minus_assign, Head_times_assign, Head_divide_assign} \<Longrightarrow>
     Head_to_double h s = word_cat (cells s (Head.head h)) (0 :: 32 word) \<and>
     fst (opr f h r s) = f (word_cat (cells s (Head.head h)) (0 :: 32 word)) r \<and>
     snd (opr f h r s) =
       s\<lparr>cells := (cells s)
           (Head.head h :=
              ucast (drop_bit 32 (f (word_cat (cells s (Head.head h)) (0 :: 32 word)) r)))\<rparr> \<and>
     cells (snd (opr f h r s)) (Head.head h)
       = ucast (drop_bit 32 (f (word_cat (cells s (Head.head h)) (0 :: 32 word)) r)) \<and>
     (\<forall>a. a \<noteq> Head.head h \<longrightarrow> cells (snd (opr f h r s)) a = cells s a)"
  by (auto simp add: Head_plus_assign_def Head_minus_assign_def Head_times_assign_def
      Head_divide_assign_def Head_assign_eq Head_to_double_eq Let_def)

theorem Head_compound_assign_witness:
  "Head_times_assign \<in> {Head_plus_assign, Head_minus_assign, Head_times_assign, Head_divide_assign} \<and>
   cells heap1 12 = 0x400921FB \<and>
   Head_to_double (Head 12) heap1 = 0x400921FB00000000 \<and>
   fst (Head_times_assign fmul_example (Head 12) 0x3FF028F5C28F5C29 heap1) = 0x40096251FD70A3D7 \<and>
   cells (snd (Head_times_assign fmul_example (Head 12) 0x3FF028F5C28F5C29 heap1)) 12 = 0x40096251 \<and>
   cells (snd (Head_times_assign fmul_example (Head 12) 0x3FF028F5C28F5C29 heap1)) 28 = 0x54442D11"
  using Head_compound_assign [of Head_times_assign "Head 12" heap1 fmul_example "0x3FF028F5C28F5C29"]
  by (simp add: heap1_cells word_cat_eq fmul_example_def)

section \<open>A pair from a head\<close>

text \<open>
  Claim C6: the constructor \<^verbatim>\<open>Pair(const Head& o)\<close> copies the head cell of \<open>o\<close> into
  the head cell of the pair and stores zero in the tail cell of the pair. The code does
  not: the constructor never binds the pair's own \<^verbatim>\<open>head\<close> and \<^verbatim>\<open>tail\<close>, so the
  first store already goes through an indeterminate pointer. Constructing a pair from
  the head of element 0 of the example array ends there, and no cell of a pair receives
  the head 1.0 or a zero.
\<close>

theorem Pair_from_Head_stores_through_unbound_pointers:
  "cells heap1 (Head.head (HeadsArray_index (fst array2) 0)) = 0x3FF00000 \<and>
   Pair_from_Head (HeadsArray_index (fst array2) 0) heap1 = Inl IndeterminatePointer"
  by (simp add: Pair_from_Head_def store_float_def HeadsArray_index_def array2_eq heap1_cells)

section \<open>Assigning a head to a pair\<close>

text \<open>
  Claim C10. The assignment \<^verbatim>\<open>Pair::operator=(const Head&)\<close> copies the head cell only:
  the tail cell of the pair and every other cell keep their content, and the pair then
  reads as the copied head joined with the old tail. When the old tail is not zero this
  differs from the head-only value of the assigned head.
\<close>

theorem Pair_assign_Head_keeps_tail:
  "Pair.head p \<noteq> Pair.tail p \<Longrightarrow>
     cells (Pair_assign_Head p other s) (Pair.head p) = cells s (Head.head other) \<and>
     cells (Pair_assign_Head p other s) (Pair.tail p) = cells s (Pair.tail p) \<and>
     Pair_to_double p (Pair_assign_Head p other s)
       = word_cat (cells s (Head.head other)) (cells s (Pair.tail p)) \<and>
     (cells s (Pair.tail p) \<noteq> 0 \<longrightarrow>
        Pair_to_double p (Pair_assign_Head p other s) \<noteq> Head_to_double other s) \<and>
     (\<forall>a. a \<noteq> Pair.head p \<longrightarrow> cells (Pair_assign_Head p other s) a = cells s a) \<and>
     dcells (Pair_assign_Head p other s) = dcells s"
  by (auto simp add: Pair_assign_Head_def Pair_to_double_eq Head_to_double_eq
      dest: word_cat_tail_inject)

theorem Pair_assign_Head_witness:
  "Pair.head (Pair 12 28) \<noteq> Pair.tail (Pair 12 28) \<and> cells heap1 (Pair.tail (Pair 12 28)) \<noteq> 0 \<and>
   cells (Pair_assign_Head (Pair 12 28) (Head 8) heap1) 12 = 0x3FF00000 \<and>
   cells (Pair_assign_Head (Pair 12 28) (Head 8) heap1) 28 = 0x54442D11 \<and>
   cells (Pair_assign_Head (Pair 12 28) (Head 8) heap1) 24 = 0 \<and>
   Pair_to_double (Pair 12 28) (Pair_assign_Head (Pair 12 28) (Head 8) heap1) = 0x3FF0000054442D11 \<and>
   Head_to_double (Head 8) heap1 = 0x3FF0000000000000"
  using Pair_assign_Head_keeps_tail [of "Pair 12 28" "Head 8" heap1]
  by (simp add: heap1_cells Head_to_double_eq word_cat_eq)

section \<open>The mirror\<close>

lemma sint_of_nat_small: "sint (of_nat k :: 32 word) = int k" if "k < 2 ^ 31"
proof -
  have "sint (of_nat k :: 32 word) = signed_take_bit 31 (int k)"
    by (simp add: signed_of_nat)
  also have "\<dots> = int k"
    using that by (intro signed_take_bit_int_eq_self) auto
  finally show ?thesis .
qed

lemma scast_of_nat_small: "scast (of_nat k :: 32 word) = (of_nat k :: 64 word)" if "k < 2 ^ 31"
  using that by (simp add: scast_eq sint_of_nat_small)

lemma unat_of_nat_small: "unat (of_nat k :: 64 word) = k" if "k < 2 ^ 31"
  using that by (simp add: unat_of_nat)

lemma scast_int_min: "unat (scast (of_nat (2 ^ 31) :: 32 word) :: 64 word) = 2 ^ 64 - 2 ^ 31"
  by simp

text \<open>One iteration, for a counter below \<open>2^31\<close> and below the length.\<close>

lemma copy_loop_step:
  assumes "k < 2 ^ 31" "k < unat (length_m M)"
  shows "copy_loop M (of_nat k) s =
     copy_loop M (of_nat (Suc k)) (s\<lparr>dcells := mirror_cell M (cells s) k (dcells s)\<rparr>)"
proof -
  have c: "(scast (of_nat k :: 32 word) :: 64 word) < length_m M"
    using assms by (simp add: scast_of_nat_small word_less_nat_alt unat_of_nat_small)
  have h: "(dcells s)(full M + 8 * scast (of_nat k :: 32 word) :=
        Head_to_double (HeadsArray_index (heads_m M) (scast (of_nat k :: 32 word))) s)
      = mirror_cell M (cells s) k (dcells s)"
    using assms(1)
    by (simp add: scast_of_nat_small HeadsArray_index_def Head_to_double_eq mirror_cell_def)
  have n: "(of_nat k :: 32 word) + 1 = of_nat (Suc k)" by simp
  show ?thesis
    by (subst copy_loop.simps) (simp only: c h n if_True)
qed

text \<open>The loop stops when the counter reaches the length or wraps to \<open>INT_MIN\<close>.\<close>

lemma copy_loop_stop:
  assumes "unat (length_m M) \<le> 2 ^ 64 - 2 ^ 31" "k = min (unat (length_m M)) (2 ^ 31)"
  shows "copy_loop M (of_nat k) s = s"
proof -
  have "\<not> (scast (of_nat k :: 32 word) :: 64 word) < length_m M"
  proof (cases "unat (length_m M) < 2 ^ 31")
    case True
    then have k: "k = unat (length_m M)" "k < 2 ^ 31" using assms(2) by simp_all
    from k(2) have "(scast (of_nat k :: 32 word) :: 64 word) = of_nat k"
      by (rule scast_of_nat_small)
    also have "(of_nat k :: 64 word) = length_m M"
      unfolding k(1) by simp
    finally show ?thesis by simp
  next
    case False
    then have "k = 2 ^ 31" using assms(2) by simp
    then have "unat (scast (of_nat k :: 32 word) :: 64 word) = 2 ^ 64 - 2 ^ 31"
      by (simp only: scast_int_min)
    then show ?thesis
      using assms(1) by (simp only: word_less_nat_alt not_less)
  qed
  then show ?thesis
    by (subst copy_loop.simps) simp
qed

text \<open>
  The whole loop: the iterations for the counters from \<open>k\<close> up to the length, or up to
  \<open>2^31\<close> if the length is larger.
\<close>

lemma copy_loop_upto:
  assumes "unat (length_m M) \<le> 2 ^ 64 - 2 ^ 31" "k \<le> min (unat (length_m M)) (2 ^ 31)"
  shows "copy_loop M (of_nat k) s =
     s\<lparr>dcells := fold (mirror_cell M (cells s)) [k..<min (unat (length_m M)) (2 ^ 31)] (dcells s)\<rparr>"
proof -
  define m where "m = min (unat (length_m M)) (2 ^ 31)"
  have m: "m \<le> 2 ^ 31" "m \<le> unat (length_m M)" by (simp_all add: m_def)
  have "k \<le> m \<Longrightarrow> copy_loop M (of_nat k) s =
     s\<lparr>dcells := fold (mirror_cell M (cells s)) [k..<m] (dcells s)\<rparr>"
  proof (induction "m - k" arbitrary: k s)
    case 0
    then have "k = m" by simp
    then have "copy_loop M (of_nat k) s = s"
      using copy_loop_stop [OF assms(1)] by (simp add: m_def)
    then show ?case using \<open>k = m\<close> by simp
  next
    case (Suc d)
    then have "k < m" by simp
    then have k: "k < 2 ^ 31" "k < unat (length_m M)" "Suc k \<le> m"
      using m by simp_all
    have d: "d = m - Suc k" using Suc.hyps(2) by simp
    show ?case
      unfolding copy_loop_step [OF k(1,2)] Suc.hyps(1) [OF d k(3)]
      using \<open>k < m\<close> by (simp add: upt_conv_Cons)
  qed
  then show ?thesis using assms(2) by (simp add: m_def)
qed

text \<open>Distinct counters below \<open>2^61\<close> address distinct cells of the mirror.\<close>

lemma mirror_addr_inject:
  fixes f :: "64 word"
  assumes "f + 8 * of_nat j = f + 8 * of_nat j'" "j < 2 ^ 61" "j' < 2 ^ 61"
  shows "j = j'"
proof -
  have u: "unat (8 * of_nat i :: 64 word) = 8 * i" if "i < 2 ^ 61" for i
  proof -
    have "unat (of_nat i :: 64 word) = i" using that by (simp add: unat_of_nat)
    moreover have "unat (8 :: 64 word) * unat (of_nat i :: 64 word) < 2 ^ 64"
      using that by (simp add: unat_of_nat)
    ultimately show ?thesis
      using unat_mult_lem [of "8 :: 64 word" "of_nat i"] by simp
  qed
  from assms(1) have "(8 * of_nat j :: 64 word) = 8 * of_nat j'" by simp
  then have "unat (8 * of_nat j :: 64 word) = unat (8 * of_nat j' :: 64 word)" by simp
  then have "8 * j = 8 * j'"
    by (simp only: u [OF assms(2)] u [OF assms(3)])
  then show ?thesis by simp
qed

lemma mirror_cell_apply:
  "mirror_cell M c j d a =
     (if a = full M + 8 * of_nat j
      then word_cat (c (heads (heads_m M) + 4 * of_nat j)) (0 :: 32 word) else d a)"
  by (simp add: mirror_cell_def)

lemma fold_mirror_cell_Suc:
  "k \<le> m \<Longrightarrow>
     fold (mirror_cell M c) [k..<Suc m] d a =
       (if a = full M + 8 * of_nat m
        then word_cat (c (heads (heads_m M) + 4 * of_nat m)) (0 :: 32 word)
        else fold (mirror_cell M c) [k..<m] d a)"
proof -
  assume "k \<le> m"
  then have "fold (mirror_cell M c) [k..<Suc m] d
      = mirror_cell M c m (fold (mirror_cell M c) [k..<m] d)"
    by simp
  then show ?thesis by (simp only: mirror_cell_apply)
qed

lemma fold_mirror_cell_other:
  "(\<And>j. k \<le> j \<Longrightarrow> j < m \<Longrightarrow> a \<noteq> full M + 8 * of_nat j) \<Longrightarrow>
     fold (mirror_cell M c) [k..<m] d a = d a"
proof (induction m)
  case 0
  show ?case by simp
next
  case (Suc m)
  show ?case
  proof (cases "k \<le> m")
    case True
    have "fold (mirror_cell M c) [k..<m] d a = d a"
      using Suc.prems by (intro Suc.IH) simp_all
    moreover have "a \<noteq> full M + 8 * of_nat m"
      using Suc.prems [of m] True by simp
    ultimately show ?thesis
      by (simp only: fold_mirror_cell_Suc [OF True] if_False)
  next
    case False
    then show ?thesis by simp
  qed
qed

lemma fold_mirror_cell_at:
  "k \<le> j \<Longrightarrow> j < m \<Longrightarrow> m \<le> 2 ^ 61 \<Longrightarrow>
     fold (mirror_cell M c) [k..<m] d (full M + 8 * of_nat j)
       = word_cat (c (heads (heads_m M) + 4 * of_nat j)) (0 :: 32 word)"
proof (induction m)
  case 0
  then show ?case by simp
next
  case (Suc m)
  have km: "k \<le> m" using Suc.prems by simp
  show ?case
  proof (cases "j = m")
    case True
    then show ?thesis by (simp only: fold_mirror_cell_Suc [OF km] simp_thms if_True)
  next
    case False
    then have j: "j < m" using Suc.prems by simp
    have "full M + 8 * of_nat j \<noteq> full M + 8 * of_nat m"
      using mirror_addr_inject [of "full M" j m] False Suc.prems j by auto
    moreover have "fold (mirror_cell M c) [k..<m] d (full M + 8 * of_nat j)
        = word_cat (c (heads (heads_m M) + 4 * of_nat j)) (0 :: 32 word)"
      using Suc.prems j by (intro Suc.IH) simp_all
    ultimately show ?thesis
      by (simp only: fold_mirror_cell_Suc [OF km] if_False)
  qed
qed

text \<open>\<^verbatim>\<open>copytoIEEEdouble\<close> when the new block fits.\<close>

lemma copytoIEEEdouble_eq:
  assumes "unat (length_m M) \<le> 2 ^ 64 - 2 ^ 31" "dbrk s + 8 + 8 * unat (length_m M) < 2 ^ 64"
  shows "copytoIEEEdouble M s =
     Inr (M\<lparr>full := of_nat (dbrk s + 8)\<rparr>,
          s\<lparr>dcells := fold (mirror_cell (M\<lparr>full := of_nat (dbrk s + 8)\<rparr>) (cells s))
                         [0..<min (unat (length_m M)) (2 ^ 31)] (dcells s),
            dlive := of_nat (dbrk s + 8) # dlive s,
            dbrk := dbrk s + 8 + 8 * unat (length_m M)\<rparr>)"
proof -
  let ?M = "M\<lparr>full := of_nat (dbrk s + 8)\<rparr>"
  have l: "unat (length_m ?M) \<le> 2 ^ 64 - 2 ^ 31" using assms(1) by simp
  show ?thesis
    using assms(2) copy_loop_upto [OF l, of 0]
    by (simp add: copytoIEEEdouble_def new_double_def Let_def del: of_nat_add)
qed

text \<open>
  Below \<open>2^31\<close> elements the mirror is filled from the heads, element by element, and
  nothing else is read: the tails play no part.
\<close>

lemma copytoIEEEdouble_fills:
  assumes "unat (length_m M) < 2 ^ 31" "j < unat (length_m M)"
    and "copytoIEEEdouble M s = Inr (M', s')"
  shows "dcells s' (full M' + 8 * of_nat j)
       = Head_to_double (HeadsArray_index (heads_m M) (of_nat j)) s"
    and "cells s' = cells s"
    and "M' = M\<lparr>full := of_nat (dbrk s + 8)\<rparr>"
    and "dlive s' = full M' # dlive s"
proof -
  have l: "unat (length_m M) \<le> 2 ^ 64 - 2 ^ 31" using assms(1) by simp
  have r: "dbrk s + 8 + 8 * unat (length_m M) < 2 ^ 64"
    using assms(3) by (auto simp add: copytoIEEEdouble_def new_double_def Let_def split: if_splits)
  note e = assms(3) [unfolded copytoIEEEdouble_eq [OF l r]]
  from e show M': "M' = M\<lparr>full := of_nat (dbrk s + 8)\<rparr>" by simp
  from e show "cells s' = cells s" by auto
  from e show "dlive s' = full M' # dlive s" by auto
  have "dcells s' = fold (mirror_cell M' (cells s)) [0..<unat (length_m M)] (dcells s)"
    using e assms(1) by auto
  then show "dcells s' (full M' + 8 * of_nat j)
       = Head_to_double (HeadsArray_index (heads_m M) (of_nat j)) s"
    using assms(1,2) fold_mirror_cell_at [of 0 j "unat (length_m M)" M' "cells s" "dcells s"]
    by (simp add: HeadsArray_index_def Head_to_double_eq M')
qed

lemma big_create: "ManSegArray_create 0x80000001 heap0 = Inr big"
  by (simp add: big_def ManSegArray_create_def HeadsArray_alloc_def new_float_def
      new_float_zero_def heap0_def Let_def)

lemma big_eq:
  "fst big = \<lparr>heads_m = \<lparr>heads = 8, tails = 8589934612\<rparr>,
      pairs = \<lparr>heads = 8, tails = 8589934612\<rparr>, full = 0, length_m = 0x80000001\<rparr>"
  "dcells (snd big) = (\<lambda>a. 0)" "dbrk (snd big) = 0"
  by (simp_all add: big_def ManSegArray_create_def HeadsArray_alloc_def new_float_def
      new_float_zero_def heap0_def TwoSegArray_empty_def createFullPrecision_def nullptr_def Let_def)

lemma big_written_eq:
  "cells big_written 8589934600 = 0x3FF00000" "dcells big_written = (\<lambda>a. 0)" "dbrk big_written = 0"
  by (simp_all add: big_written_def HeadsArray_set_eq big_eq)

lemma big_mirror_eq:
  "copytoIEEEdouble (fst big) big_written =
     Inr ((fst big)\<lparr>full := 8\<rparr>,
          big_written\<lparr>dcells := fold (mirror_cell ((fst big)\<lparr>full := 8\<rparr>) (cells big_written))
                         [0..<2 ^ 31] (\<lambda>a. 0),
            dlive := 8 # dlive big_written,
            dbrk := 17179869200\<rparr>)"
proof -
  have l: "unat (length_m (fst big)) \<le> 2 ^ 64 - 2 ^ 31" by (simp add: big_eq)
  have r: "dbrk big_written + 8 + 8 * unat (length_m (fst big)) < 2 ^ 64"
    by (simp add: big_eq big_written_eq)
  show ?thesis
    unfolding copytoIEEEdouble_eq [OF l r] by (simp add: big_eq big_written_eq)
qed

text \<open>
  Claim C7: \<^verbatim>\<open>copytoIEEEdouble\<close> fills \<open>full[i]\<close> with the head-only value of element
  \<open>i\<close> for every \<open>i\<close> below the length. By \<open>copytoIEEEdouble_fills\<close> it does so for
  lengths below \<open>2^31\<close>, whatever the tails hold. It does not for longer arrays: the loop
  counter is an \<^verbatim>\<open>int\<close> and the length a \<^verbatim>\<open>uint_fast64_t\<close>. On an array of length
  \<open>2^31 + 1\<close> whose element \<open>2^31\<close> was set to 1.0, the counter leaves \<open>2^31 - 1\<close> for
  \<open>-2^31\<close>, which compares above the length, and the loop stops: \<open>full[2^31]\<close> still
  holds what the fresh block held, here 0, while the head-only value of that element is
  1.0.
\<close>

theorem mirror_stops_at_INT_MAX:
  "ManSegArray_create 0x80000001 heap0 = Inr big \<and>
   copytoIEEEdouble (fst big) big_written = Inr big_mirror \<and>
   length_m (fst big_mirror) = 0x80000001 \<and>
   unat (0x80000000 :: 64 word) < unat (length_m (fst big_mirror)) \<and>
   Head_to_double (HeadsArray_index (heads_m (fst big_mirror)) 0x80000000) (snd big_mirror)
     = 0x3FF0000000000000 \<and>
   dcells (snd big_mirror) (full (fst big_mirror) + 8 * 0x80000000) = 0"
proof -
  have m: "copytoIEEEdouble (fst big) big_written = Inr big_mirror"
    unfolding big_mirror_def by (simp add: big_mirror_eq)
  have a: "(8 :: 64 word) + 8 * 0x80000000 \<noteq> 8 + 8 * of_nat j" if "j < 2 ^ 31" for j
  proof
    assume "(8 :: 64 word) + 8 * 0x80000000 = 8 + 8 * of_nat j"
    then have "(8 :: 64 word) + 8 * of_nat (2 ^ 31) = 8 + 8 * of_nat j" by simp
    then have "(2 :: nat) ^ 31 = j"
      using that by (intro mirror_addr_inject [of 8 "2 ^ 31" j]) simp_all
    then show False using that by simp
  qed
  have "fold (mirror_cell ((fst big)\<lparr>full := 8\<rparr>) (cells big_written)) [0..<2 ^ 31] (\<lambda>a. 0)
      (full ((fst big)\<lparr>full := 8\<rparr>) + 8 * 0x80000000) = 0"
    by (subst fold_mirror_cell_other) (use a in simp_all)
  then have d: "dcells (snd big_mirror) (full (fst big_mirror) + 8 * 0x80000000) = 0"
    unfolding big_mirror_def big_mirror_eq by simp
  have h: "Head_to_double (HeadsArray_index (heads_m (fst big_mirror)) 0x80000000) (snd big_mirror)
     = 0x3FF0000000000000"
    unfolding big_mirror_def big_mirror_eq
    by (simp add: big_eq big_written_eq HeadsArray_index_def Head_to_double_eq word_cat_eq)
  have l: "length_m (fst big_mirror) = 0x80000001"
    unfolding big_mirror_def big_mirror_eq by (simp add: big_eq)
  show ?thesis
    using big_create m d h l by simp
qed

section \<open>Releasing the segments twice\<close>

lemma created2_create: "ManSegArray_create 2 heap0 = Inr created2"
  by (simp add: created2_def ManSegArray_create_def HeadsArray_alloc_def new_float_def
      new_float_zero_def heap0_def Let_def)

lemma created2_eq:
  "fst created2 = \<lparr>heads_m = \<lparr>heads = 8, tails = 24\<rparr>, pairs = \<lparr>heads = 8, tails = 24\<rparr>,
      full = 0, length_m = 2\<rparr>"
  "live (snd created2) = [24, 8]"
  by (simp_all add: created2_def ManSegArray_create_def HeadsArray_alloc_def new_float_def
      new_float_zero_def heap0_def TwoSegArray_empty_def createFullPrecision_def nullptr_def Let_def)

lemma TwoSegArray_del_null:
  "heads A = nullptr \<Longrightarrow> tails A = nullptr \<Longrightarrow> TwoSegArray_del A s = Inr (A, s)"
  by (simp add: TwoSegArray_del_def)

lemma TwoSegArray_del_result:
  "TwoSegArray_del A s = Inr (A', s') \<Longrightarrow> heads A' = nullptr \<and> tails A' = nullptr"
  by (auto simp add: TwoSegArray_del_def split: sum.splits if_splits)

lemma released_once_eq:
  "released_once = Inr (\<lparr>heads_m = \<lparr>heads = 0, tails = 0\<rparr>, pairs = \<lparr>heads = 8, tails = 24\<rparr>,
      full = 0, length_m = 0\<rparr>, (snd created2)\<lparr>live := []\<rparr>)"
  by (simp add: released_once_def delSegments_def TwoSegArray_del_def delete_float_def created2_eq nullptr_def)

text \<open>
  Claim C8, as stated: a second \<^verbatim>\<open>delSegments\<close> is rejected with an error reported to
  the caller. It is not: on the array of length 2 created on the empty heap, the first
  call returns normally, and the second call returns normally too, with the same array
  and memory as after the first.
\<close>

theorem double_release_counterexample:
  "\<not> isl released_once \<and> \<not> isl released_twice \<and> released_twice = released_once"
  by (simp add: released_twice_def released_once_eq delSegments_def TwoSegArray_del_def nullptr_def)

text \<open>
  Claim C8, amended. After a \<^verbatim>\<open>delSegments\<close> that returned, a second
  \<^verbatim>\<open>delSegments\<close> is silently ignored: \<^verbatim>\<open>del\<close> set both pointers to null, the
  guarded \<^verbatim>\<open>delete[]\<close> are skipped, and the call returns normally with the array and
  the memory unchanged. No error is reported; \<^verbatim>\<open>isAlloc\<close> is false.
\<close>

theorem second_release_is_ignored:
  "delSegments M s = Inr (M', s') \<Longrightarrow>
     delSegments M' s' = Inr (M', s') \<and>
     TwoSegArray_del (heads_m M') s' = Inr (heads_m M', s') \<and>
     \<not> isAlloc (heads_m M')"
proof -
  assume "delSegments M s = Inr (M', s')"
  then obtain A1 where d: "TwoSegArray_del (heads_m M) s = Inr (A1, s')"
    and M': "M' = (if full M = nullptr then M\<lparr>heads_m := A1, length_m := 0\<rparr> else M\<lparr>heads_m := A1\<rparr>)"
    by (auto simp add: delSegments_def split: sum.splits)
  from d have n: "heads A1 = nullptr \<and> tails A1 = nullptr" by (rule TwoSegArray_del_result)
  then have e: "TwoSegArray_del (heads_m M') s' = Inr (heads_m M', s')"
    using M' by (auto intro: TwoSegArray_del_null)
  then have "delSegments M' s' = Inr (M', s')"
    using M' by (auto simp add: delSegments_def)
  moreover have "\<not> isAlloc (heads_m M')"
    using n M' by (auto simp add: isAlloc_def)
  ultimately show ?thesis using e by simp
qed

theorem second_release_witness:
  "delSegments (fst created2) (snd created2) = Inr (projr released_once) \<and>
   delSegments (fst (projr released_once)) (snd (projr released_once)) = Inr (projr released_once) \<and>
   heads (heads_m (fst (projr released_once))) = nullptr"
proof -
  have e: "delSegments (fst created2) (snd created2)
      = Inr (fst (projr released_once), snd (projr released_once))"
    by (simp add: released_once_def)
       (simp add: released_once_eq [unfolded released_once_def])
  from second_release_is_ignored [OF e] e show ?thesis
    by (simp add: released_once_eq nullptr_def)
qed

section \<open>Indices out of range\<close>





end
